theory Spec2Isabelle
  imports Main "HOL-Library.Word"
begin

unbundle bit_operations_syntax

section \<open>Data model of \<^verbatim>\<open>transform_attribute.c\<close>\<close>

type_synonym byte = "8 word"
type_synonym u_int16_t = "16 word"
type_synonym addr = nat

text \<open>
  Pointers. The file handles three kinds of pointer values: the null pointer, a block
  handed out by the allocator, and the address of the member
  \<^verbatim>\<open>attribute_length_or_value\<close> inside the attribute itself
  (\<^verbatim>\<open>get_value\<close> returns it for the inline form).
\<close>

datatype pointer = NULL | Block addr | Inline_field

text \<open>
  Modelled from the spec: \<^verbatim>\<open>status_t\<close> (declared in \<^verbatim>\<open>types.h\<close>); only the two values
  this file returns.
\<close>

datatype status_t = SUCCESS | OUT_OF_RES

text \<open>
  Modelled from the spec: \<^verbatim>\<open>payload_type_t\<close> (declared in \<^verbatim>\<open>payload.h\<close>); only the two
  tags this file returns.
\<close>

datatype payload_type_t = NO_PAYLOAD | TRANSFORM_ATTRIBUTE

text \<open>
  Modelled from the spec: \<^verbatim>\<open>encoding_type_t\<close> (declared in \<^verbatim>\<open>encodings.h\<close>); only the
  four field kinds this file's rule table uses.
\<close>

datatype encoding_type_t =
  ATTRIBUTE_FORMAT | ATTRIBUTE_TYPE | ATTRIBUTE_LENGTH_OR_VALUE | ATTRIBUTE_VALUE

text \<open>
  Modelled from the spec: \<^verbatim>\<open>chunk_t\<close> (declared in \<^verbatim>\<open>types.h\<close>), a pointer \<^verbatim>\<open>ptr\<close> and
  a length \<^verbatim>\<open>len\<close>, the two members this file reads and writes. \<^verbatim>\<open>size_t\<close> values are
  natural numbers; the only narrowing in the file, the assignment of \<^verbatim>\<open>value.len\<close> to a
  16-bit member, is written out in \<open>set_value\<close>.
\<close>

record chunk_t =
  ptr :: pointer
  len :: nat

text \<open>
  \<^verbatim>\<open>private_transform_attribute_t\<close>. The member \<^verbatim>\<open>public\<close> holds the function pointers that
  \<^verbatim>\<open>transform_attribute_create\<close> fills in; dispatch through them is the call of the
  function of the same name below, so the member is left out.
\<close>

record private_transform_attribute_t =
  attribute_format :: bool
  attribute_type :: u_int16_t
  attribute_length_or_value :: u_int16_t
  attribute_value :: chunk_t

text \<open>
  The members of the private struct, standing for
  \<^verbatim>\<open>offsetof(private_transform_attribute_t, member)\<close>: the numeric offsets depend on the
  memory layout, the member they designate does not.

  Modelled from the spec: \<^verbatim>\<open>encoding_rule_t\<close> (declared in \<^verbatim>\<open>encodings.h\<close>), a field kind
  and the location of the field, as the initialisers of the table give them.
\<close>

datatype member =
  Member_attribute_format | Member_attribute_type
  | Member_attribute_length_or_value | Member_attribute_value

record encoding_rule_t =
  rule_type :: encoding_type_t
  rule_offset :: member

section \<open>Encoding rules and the constant getters\<close>

definition transform_attribute_encodings :: "encoding_rule_t list" where
  "transform_attribute_encodings =
     [\<lparr>rule_type = ATTRIBUTE_FORMAT, rule_offset = Member_attribute_format\<rparr>,
      \<lparr>rule_type = ATTRIBUTE_TYPE, rule_offset = Member_attribute_type\<rparr>,
      \<lparr>rule_type = ATTRIBUTE_LENGTH_OR_VALUE, rule_offset = Member_attribute_length_or_value\<rparr>,
      \<lparr>rule_type = ATTRIBUTE_VALUE, rule_offset = Member_attribute_value\<rparr>]"

text \<open>
  Modelled from the spec: the order of the fields of a Transform Attribute on the wire
  (format flag, 15-bit attribute type, 16-bit length-or-value word, value), as the kinds
  of rule that carry them.
\<close>

definition wire_order :: "encoding_type_t list" where
  "wire_order =
     [ATTRIBUTE_FORMAT, ATTRIBUTE_TYPE, ATTRIBUTE_LENGTH_OR_VALUE, ATTRIBUTE_VALUE]"

text \<open>
  \<^verbatim>\<open>get_encoding_rules\<close> writes the table and its element count through two out-parameters
  and returns the status; the model returns the three together.
\<close>

definition get_encoding_rules ::
  "private_transform_attribute_t \<Rightarrow> status_t \<times> encoding_rule_t list \<times> nat" where
  "get_encoding_rules this =
     (SUCCESS, transform_attribute_encodings, length transform_attribute_encodings)"

definition get_type :: "private_transform_attribute_t \<Rightarrow> payload_type_t" where
  "get_type this = TRANSFORM_ATTRIBUTE"

definition get_next_type :: "private_transform_attribute_t \<Rightarrow> payload_type_t" where
  "get_next_type this = NO_PAYLOAD"

text \<open>
  \<^verbatim>\<open>get_length\<close>. The sum of the 16-bit member and 4 is below \<open>2 ^ 17\<close>: it wraps
  neither in \<^verbatim>\<open>int\<close>, to which the member is promoted, nor in \<^verbatim>\<open>size_t\<close>.
\<close>

definition get_length :: "private_transform_attribute_t \<Rightarrow> nat" where
  "get_length this =
     (if attribute_format this = True then 4
      else unat (attribute_length_or_value this) + 4)"

section \<open>Attribute type\<close>

definition set_attribute_type ::
  "private_transform_attribute_t \<Rightarrow> u_int16_t \<Rightarrow> status_t \<times> private_transform_attribute_t" where
  "set_attribute_type this type = (SUCCESS, this\<lparr>attribute_type := type AND 0x7FFF\<rparr>)"

definition get_attribute_type :: "private_transform_attribute_t \<Rightarrow> u_int16_t" where
  "get_attribute_type this = attribute_type this"

section \<open>The allocator as this file uses it\<close>

text \<open>
  The calls this file makes to the allocator (\<^verbatim>\<open>utils/allocator.h\<close>), in the order it
  makes them. Every function below returns the list of its calls next to its result. What
  \<^verbatim>\<open>allocator_alloc_thing\<close> and \<^verbatim>\<open>allocator_clone_bytes\<close> return is not decided by this
  file: it is an argument of the function that calls them, and it is recorded in the call.
\<close>

datatype allocator_call =
  Alloc_thing pointer
  | Clone_bytes "byte list" pointer
  | Free pointer

section \<open>The inline 16-bit field as bytes\<close>

text \<open>
  \<^verbatim>\<open>memcpy\<close> into \<^verbatim>\<open>attribute_length_or_value\<close> and the 2-byte view \<^verbatim>\<open>get_value\<close> returns
  work on the bytes of the 16-bit member in memory. Which byte comes first depends on the
  machine, so the byte order is an argument.
\<close>

datatype byte_order = Little_endian | Big_endian

definition u16_to_bytes :: "byte_order \<Rightarrow> u_int16_t \<Rightarrow> byte list" where
  "u16_to_bytes e w =
     (case e of
        Little_endian \<Rightarrow> [ucast w, ucast (drop_bit 8 w)]
      | Big_endian \<Rightarrow> [ucast (drop_bit 8 w), ucast w])"

fun bytes_to_u16 :: "byte_order \<Rightarrow> byte list \<Rightarrow> u_int16_t" where
  "bytes_to_u16 Little_endian [b0, b1] = push_bit 8 (ucast b1) OR ucast b0"
| "bytes_to_u16 Big_endian [b0, b1] = push_bit 8 (ucast b0) OR ucast b1"
| "bytes_to_u16 e bs = 0"

text \<open>
  \<^verbatim>\<open>memcpy(&dst, src, n)\<close> for a 16-bit \<open>dst\<close> and \<open>n \<le> 2\<close>: the first \<open>n\<close> bytes of
  \<open>dst\<close> are replaced, the others stay.
\<close>

definition memcpy_u16 :: "byte_order \<Rightarrow> u_int16_t \<Rightarrow> byte list \<Rightarrow> nat \<Rightarrow> u_int16_t" where
  "memcpy_u16 e dst src n = bytes_to_u16 e (take n src @ drop n (u16_to_bytes e dst))"

section \<open>Value accessors, creation and destruction\<close>

text \<open>
  \<^verbatim>\<open>set_value\<close>. The argument chunk is passed as the \<^verbatim>\<open>value.len\<close> bytes found at
  \<^verbatim>\<open>value.ptr\<close>; \<open>r\<close> is what \<^verbatim>\<open>allocator_clone_bytes\<close> returns if it is called. The
  assignment of \<^verbatim>\<open>value.len\<close> to the 16-bit member keeps its low 16 bits.
\<close>

definition set_value ::
  "byte_order \<Rightarrow> pointer \<Rightarrow> private_transform_attribute_t \<Rightarrow> byte list
     \<Rightarrow> status_t \<times> private_transform_attribute_t \<times> allocator_call list" where
  "set_value e r this v =
     (let (this1, calls1) =
            (if ptr (attribute_value this) \<noteq> NULL
             then (this\<lparr>attribute_value := \<lparr>ptr = NULL, len = 0\<rparr>\<rparr>,
                   [Free (ptr (attribute_value this))])
             else (this, []))
      in if length v > 2
         then (let this2 = this1\<lparr>attribute_value := (attribute_value this1)\<lparr>ptr := r\<rparr>\<rparr>;
                   calls2 = calls1 @ [Clone_bytes v r]
               in if ptr (attribute_value this2) = NULL
                  then (OUT_OF_RES, this2, calls2)
                  else (SUCCESS,
                        this2\<lparr>attribute_value := (attribute_value this2)\<lparr>len := length v\<rparr>,
                              attribute_length_or_value := of_nat (length v),
                              attribute_format := False\<rparr>,
                        calls2))
         else (SUCCESS,
               this1\<lparr>attribute_length_or_value :=
                        memcpy_u16 e (attribute_length_or_value this1) v (length v)\<rparr>,
               calls1))"

definition get_value :: "private_transform_attribute_t \<Rightarrow> chunk_t" where
  "get_value this =
     (if attribute_format this = False
      then \<lparr>ptr = ptr (attribute_value this), len = len (attribute_value this)\<rparr>
      else \<lparr>ptr = Inline_field, len = 2\<rparr>)"

text \<open>
  \<^verbatim>\<open>destroy\<close>; \<open>this_ptr\<close> is the address of the attribute, which the last call frees.
\<close>

definition destroy ::
  "pointer \<Rightarrow> private_transform_attribute_t \<Rightarrow> status_t \<times> allocator_call list" where
  "destroy this_ptr this =
     (SUCCESS,
      (if ptr (attribute_value this) \<noteq> NULL then [Free (ptr (attribute_value this))] else [])
      @ [Free this_ptr])"

text \<open>
  \<^verbatim>\<open>transform_attribute_create\<close>; \<open>this_ptr\<close> is what \<^verbatim>\<open>allocator_alloc_thing\<close> returns.
  The result is \<open>None\<close> where the function returns the null pointer.
\<close>

definition transform_attribute_create ::
  "pointer \<Rightarrow> private_transform_attribute_t option \<times> allocator_call list" where
  "transform_attribute_create this_ptr =
     ((if this_ptr = NULL then None
       else Some \<lparr>attribute_format = True, attribute_type = 0,
                  attribute_length_or_value = 0,
                  attribute_value = \<lparr>ptr = NULL, len = 0\<rparr>\<rparr>),
      [Alloc_thing this_ptr])"

section \<open>Memory\<close>

text \<open>
  Modelled from the spec: the allocator (\<^verbatim>\<open>utils/allocator.h\<close> is not among the sources).
  A heap maps the address of every live block to its contents. Cloning allocates new
  storage and copies the bytes, or fails and returns the null pointer and no storage;
  freeing releases a live block. Freeing anything else (a block already freed, the null
  pointer) is the fault \<open>Invalid_free\<close>. A recorded result that the allocator cannot have
  returned (a block that is live already) is \<open>Not_fresh\<close>.
\<close>

datatype block = Bytes "byte list" | Thing

type_synonym heap = "addr \<rightharpoonup> block"

datatype fault = Invalid_free pointer | Not_fresh pointer

definition allocate :: "heap \<Rightarrow> pointer \<Rightarrow> block \<Rightarrow> fault + heap" where
  "allocate h p b =
     (case p of
        NULL \<Rightarrow> Inr h
      | Block a \<Rightarrow> (case h a of None \<Rightarrow> Inr (h(a \<mapsto> b)) | Some x \<Rightarrow> Inl (Not_fresh p))
      | Inline_field \<Rightarrow> Inl (Not_fresh p))"

fun allocator_step :: "heap \<Rightarrow> allocator_call \<Rightarrow> fault + heap" where
  "allocator_step h (Alloc_thing p) = allocate h p Thing"
| "allocator_step h (Clone_bytes bs p) = allocate h p (Bytes bs)"
| "allocator_step h (Free p) =
     (case p of
        Block a \<Rightarrow> (case h a of None \<Rightarrow> Inl (Invalid_free p) | Some x \<Rightarrow> Inr (h(a := None)))
      | NULL \<Rightarrow> Inl (Invalid_free p)
      | Inline_field \<Rightarrow> Inl (Invalid_free p))"

fun allocator_run :: "heap \<Rightarrow> allocator_call list \<Rightarrow> fault + heap" where
  "allocator_run h [] = Inr h"
| "allocator_run h (c # cs) =
     (case allocator_step h c of Inl f \<Rightarrow> Inl f | Inr h' \<Rightarrow> allocator_run h' cs)"

text \<open>
  The bytes a chunk denotes: \<open>len\<close> bytes read at \<open>ptr\<close>, in a heap and for the attribute
  whose inline field \<open>Inline_field\<close> points to. \<open>None\<close> where the read leaves live memory.
\<close>

definition chunk_bytes ::
  "byte_order \<Rightarrow> heap \<Rightarrow> private_transform_attribute_t \<Rightarrow> chunk_t \<Rightarrow> byte list option" where
  "chunk_bytes e h this c =
     (case ptr c of
        NULL \<Rightarrow> (if len c = 0 then Some [] else None)
      | Inline_field \<Rightarrow>
          (if len c \<le> 2
           then Some (take (len c) (u16_to_bytes e (attribute_length_or_value this)))
           else None)
      | Block a \<Rightarrow>
          (case h a of
             Some (Bytes bs) \<Rightarrow> (if len c \<le> length bs then Some (take (len c) bs) else None)
           | Some Thing \<Rightarrow> None
           | None \<Rightarrow> None))"

section \<open>Sequences of calls on one attribute\<close>

text \<open>
  A client creates an attribute and then calls \<open>set_value\<close> and \<open>set_attribute_type\<close> on
  it any number of times; each \<open>Set_value\<close> carries the bytes passed and the result of the
  allocator, should it be asked. The allocator calls made so far are accumulated. The
  states reached from creation are the attributes \<open>this\<close> with
  \<open>client_run e this_ptr cs = Some (this, tr)\<close>; there is none when the creation fails.
\<close>

datatype api_call = Set_value "byte list" pointer | Set_attribute_type u_int16_t

fun api_step ::
  "byte_order \<Rightarrow> private_transform_attribute_t \<times> allocator_call list \<Rightarrow> api_call
     \<Rightarrow> private_transform_attribute_t \<times> allocator_call list" where
  "api_step e (this, tr) (Set_value v r) =
     (case set_value e r this v of (st, this', cs) \<Rightarrow> (this', tr @ cs))"
| "api_step e (this, tr) (Set_attribute_type t) = (snd (set_attribute_type this t), tr)"

definition client_run ::
  "byte_order \<Rightarrow> pointer \<Rightarrow> api_call list
     \<Rightarrow> (private_transform_attribute_t \<times> allocator_call list) option" where
  "client_run e this_ptr cs =
     (case transform_attribute_create this_ptr of
        (None, tr) \<Rightarrow> None
      | (Some this, tr) \<Rightarrow> Some (foldl (api_step e) (this, tr) cs))"

text \<open>
  The whole life of an attribute: creation, the client's calls, destruction. The result
  is the sequence of allocator calls made.
\<close>

definition lifecycle :: "byte_order \<Rightarrow> pointer \<Rightarrow> api_call list \<Rightarrow> allocator_call list" where
  "lifecycle e this_ptr cs =
     (case client_run e this_ptr cs of
        None \<Rightarrow> snd (transform_attribute_create this_ptr)
      | Some (this, tr) \<Rightarrow> tr @ snd (destroy this_ptr this))"

section \<open>Ownership\<close>

text \<open>
  In a heap \<open>h\<close>, the attribute at \<open>this_ptr\<close> owns its memory when its own block is
  live and its buffer pointer is either null or a live block other than its own.
  A pair of an attribute and the allocator calls made so far is sound from a heap \<open>h0\<close>
  when running the calls from \<open>h0\<close> frees nothing that is not live and ends in a heap in
  which the attribute owns its memory (or stops at a result the allocator cannot return).
\<close>

definition owns :: "heap \<Rightarrow> pointer \<Rightarrow> private_transform_attribute_t \<Rightarrow> bool" where
  "owns h this_ptr this =
     (case this_ptr of
        Block a \<Rightarrow>
          h a \<noteq> None \<and>
          (case ptr (attribute_value this) of
             NULL \<Rightarrow> True
           | Block b \<Rightarrow> b \<noteq> a \<and> h b \<noteq> None
           | Inline_field \<Rightarrow> False)
      | NULL \<Rightarrow> False
      | Inline_field \<Rightarrow> False)"

definition sound ::
  "heap \<Rightarrow> pointer \<Rightarrow> private_transform_attribute_t \<times> allocator_call list \<Rightarrow> bool" where
  "sound h0 this_ptr s =
     (case allocator_run h0 (snd s) of
        Inl (Invalid_free q) \<Rightarrow> False
      | Inl (Not_fresh q) \<Rightarrow> True
      | Inr h \<Rightarrow> owns h this_ptr (fst s))"

section \<open>Properties\<close>

subsection \<open>Bytes of the inline field\<close>

lemma no_high_bit_byte: "\<not> bit (x :: byte) (8 + n)"
  using bit_imp_le_length [of x "8 + n"] by auto

lemma u16_bytes_roundtrip: "u16_to_bytes e (bytes_to_u16 e [x, y]) = [x, y]"
  apply (cases e)
   apply (simp_all add: u16_to_bytes_def)
  apply (auto intro!: bit_word_eqI simp add: bit_simps no_high_bit_byte)
  done

lemma bytes_u16_roundtrip: "bytes_to_u16 e (u16_to_bytes e w) = w"
  apply (cases e)
   apply (simp_all add: u16_to_bytes_def)
  apply (auto intro!: bit_word_eqI simp add: bit_simps)
  done

lemma length_u16_to_bytes: "length (u16_to_bytes e w) = 2"
  by (cases e) (simp_all add: u16_to_bytes_def)

lemma short_list_cases:
  assumes "length (v :: 'a list) \<le> 2"
  obtains "v = []" | a where "v = [a]" | a b where "v = [a, b]"
proof (cases v)
  case Nil
  then show ?thesis using that by simp
next
  case (Cons a w)
  show ?thesis
  proof (cases w)
    case Nil
    with Cons show ?thesis using that by simp
  next
    case (Cons b u)
    with \<open>v = a # w\<close> assms have "u = []" by simp
    with Cons \<open>v = a # w\<close> show ?thesis using that by simp
  qed
qed

lemma u16_to_bytes_memcpy:
  assumes "length v \<le> 2"
  shows "u16_to_bytes e (memcpy_u16 e w v (length v)) = v @ drop (length v) (u16_to_bytes e w)"
proof -
  obtain p q where pq: "u16_to_bytes e w = [p, q]"
    by (cases e) (simp_all add: u16_to_bytes_def)
  from assms show ?thesis
  proof (cases v rule: short_list_cases)
    case 1
    then show ?thesis
      using bytes_u16_roundtrip [of e w] by (simp add: memcpy_u16_def)
  next
    case (2 a)
    then show ?thesis
      by (simp add: memcpy_u16_def pq u16_bytes_roundtrip)
  next
    case (3 a b)
    then show ?thesis
      by (simp add: memcpy_u16_def pq u16_bytes_roundtrip)
  qed
qed

subsection \<open>The three paths of \<open>set_value\<close>\<close>

lemma set_value_short:
  "length v \<le> 2 \<Longrightarrow>
   set_value e r this v =
     (SUCCESS,
      this\<lparr>attribute_value :=
              (if ptr (attribute_value this) \<noteq> NULL then \<lparr>ptr = NULL, len = 0\<rparr>
               else attribute_value this),
            attribute_length_or_value :=
              memcpy_u16 e (attribute_length_or_value this) v (length v)\<rparr>,
      if ptr (attribute_value this) \<noteq> NULL then [Free (ptr (attribute_value this))] else [])"
  by (simp add: set_value_def)

lemma set_value_long_ok:
  "2 < length v \<Longrightarrow> r \<noteq> NULL \<Longrightarrow>
   set_value e r this v =
     (SUCCESS,
      this\<lparr>attribute_value := \<lparr>ptr = r, len = length v\<rparr>,
            attribute_length_or_value := of_nat (length v),
            attribute_format := False\<rparr>,
      (if ptr (attribute_value this) \<noteq> NULL then [Free (ptr (attribute_value this))] else [])
      @ [Clone_bytes v r])"
  by (simp add: set_value_def)

lemma set_value_long_fail:
  "2 < length v \<Longrightarrow>
   set_value e NULL this v =
     (OUT_OF_RES,
      this\<lparr>attribute_value :=
              (if ptr (attribute_value this) \<noteq> NULL then \<lparr>ptr = NULL, len = 0\<rparr>
               else (attribute_value this)\<lparr>ptr := NULL\<rparr>)\<rparr>,
      (if ptr (attribute_value this) \<noteq> NULL then [Free (ptr (attribute_value this))] else [])
      @ [Clone_bytes v NULL])"
  by (simp add: set_value_def)

text \<open>
  What \<open>set_value\<close> does to the format flag: a successful clone clears it, and no path
  sets it.
\<close>

lemma set_value_format:
  "attribute_format (fst (snd (set_value e r this v))) =
     (if 2 < length v \<and> r \<noteq> NULL then False else attribute_format this)"
proof -
  consider "length v \<le> 2" | "2 < length v" "r = NULL" | "2 < length v" "r \<noteq> NULL"
    by linarith
  then show ?thesis
    by cases (simp_all add: set_value_short set_value_long_ok set_value_long_fail)
qed

subsection \<open>Attribute type\<close>

lemma mask_15_bound: "unat ((w :: u_int16_t) AND 0x7FFF) \<le> 32767"
proof -
  have "w AND 0x7FFF \<le> 0x7FFF"
    by (rule word_and_le1)
  then have "unat (w AND 0x7FFF) \<le> unat (0x7FFF :: u_int16_t)"
    by (simp only: word_le_nat_alt)
  then show ?thesis by simp
qed

text \<open>
  Claim C4. For every 16-bit input \<open>t\<close> and every attribute state,
  \<open>set_attribute_type\<close> returns \<open>SUCCESS\<close>, the stored type is at most 32767, and
  \<open>get_attribute_type\<close> then returns exactly \<open>t AND 0x7FFF\<close>.
\<close>

theorem set_attribute_type_masks:
  "fst (set_attribute_type this t) = SUCCESS
   \<and> unat (attribute_type (snd (set_attribute_type this t))) \<le> 32767
   \<and> get_attribute_type (snd (set_attribute_type this t)) = t AND 0x7FFF"
  by (simp add: set_attribute_type_def get_attribute_type_def mask_15_bound)

subsection \<open>Encoding rules and payload tags\<close>

text \<open>
  Claim C8. In every state, \<open>get_encoding_rules\<close> returns \<open>SUCCESS\<close>, the one
  static table and the count 4; the table has exactly four rules, their kinds are in wire
  order (format flag, attribute type, length-or-value word, value), and each rule
  designates the member of that name.
\<close>

theorem encoding_rules_in_wire_order:
  "get_encoding_rules this = (SUCCESS, transform_attribute_encodings, 4)
   \<and> get_encoding_rules this = get_encoding_rules this'
   \<and> length transform_attribute_encodings = 4
   \<and> map rule_type transform_attribute_encodings = wire_order
   \<and> map rule_offset transform_attribute_encodings =
       [Member_attribute_format, Member_attribute_type,
        Member_attribute_length_or_value, Member_attribute_value]"
  by (simp add: get_encoding_rules_def transform_attribute_encodings_def wire_order_def)

text \<open>
  Claim C9. In every state, \<open>get_type\<close> returns \<open>TRANSFORM_ATTRIBUTE\<close> and
  \<open>get_next_type\<close> returns \<open>NO_PAYLOAD\<close>; this still holds after any call of
  \<open>set_value\<close> or \<open>set_attribute_type\<close>.
\<close>

theorem type_tags_constant:
  "get_type this = TRANSFORM_ATTRIBUTE \<and> get_next_type this = NO_PAYLOAD
   \<and> get_type (fst (snd (set_value e r this v))) = TRANSFORM_ATTRIBUTE
   \<and> get_next_type (fst (snd (set_value e r this v))) = NO_PAYLOAD
   \<and> get_type (snd (set_attribute_type this t)) = TRANSFORM_ATTRIBUTE
   \<and> get_next_type (snd (set_attribute_type this t)) = NO_PAYLOAD"
  by (simp add: get_type_def get_next_type_def)

subsection \<open>Length on the wire\<close>

lemma client_run_created:
  "client_run e (Block a) cs =
     Some (foldl (api_step e)
            (\<lparr>attribute_format = True, attribute_type = 0, attribute_length_or_value = 0,
              attribute_value = \<lparr>ptr = NULL, len = 0\<rparr>\<rparr>, [Alloc_thing (Block a)]) cs)"
  by (simp add: client_run_def transform_attribute_create_def)

text \<open>
  Claim C5. In every state reached from creation by calls of \<open>set_value\<close> and
  \<open>set_attribute_type\<close>, \<open>get_length\<close> returns 4 when the attribute is in TV form and
  4 plus \<open>attribute_length_or_value\<close> when it is in TLV form.
\<close>

theorem get_length_by_form:
  assumes "client_run e this_ptr cs = Some (this, tr)"
  shows "(attribute_format this \<longrightarrow> get_length this = 4)
         \<and> (\<not> attribute_format this \<longrightarrow>
              get_length this = 4 + unat (attribute_length_or_value this))"
  by (simp add: get_length_def)

theorem get_length_by_form_witness:
  "client_run Little_endian (Block 0) [Set_value [0xAA, 0xBB] NULL] =
     Some (\<lparr>attribute_format = True, attribute_type = 0, attribute_length_or_value = 0xBBAA,
            attribute_value = \<lparr>ptr = NULL, len = 0\<rparr>\<rparr>,
           [Alloc_thing (Block 0)])
   \<and> get_length \<lparr>attribute_format = True, attribute_type = 0,
                  attribute_length_or_value = 0xBBAA,
                  attribute_value = \<lparr>ptr = NULL, len = 0\<rparr>\<rparr> = 4
   \<and> client_run Little_endian (Block 0) [Set_value [1, 2, 3, 4, 5] (Block 1)] =
       Some (\<lparr>attribute_format = False, attribute_type = 0, attribute_length_or_value = 5,
              attribute_value = \<lparr>ptr = Block 1, len = 5\<rparr>\<rparr>,
             [Alloc_thing (Block 0), Clone_bytes [1, 2, 3, 4, 5] (Block 1)])
   \<and> get_length \<lparr>attribute_format = False, attribute_type = 0,
                  attribute_length_or_value = 5,
                  attribute_value = \<lparr>ptr = Block 1, len = 5\<rparr>\<rparr> = 9"
proof -
  let ?tv = "\<lparr>attribute_format = True, attribute_type = 0,
               attribute_length_or_value = (0xBBAA :: u_int16_t),
               attribute_value = \<lparr>ptr = NULL, len = 0\<rparr>\<rparr>"
  let ?tlv = "\<lparr>attribute_format = False, attribute_type = 0,
                attribute_length_or_value = (5 :: u_int16_t),
                attribute_value = \<lparr>ptr = Block 1, len = 5\<rparr>\<rparr>"
  have tv: "client_run Little_endian (Block 0) [Set_value [0xAA, 0xBB] NULL]
              = Some (?tv, [Alloc_thing (Block 0)])"
    by (simp add: client_run_created set_value_short memcpy_u16_def u16_to_bytes_def)
  have tlv: "client_run Little_endian (Block 0) [Set_value [1, 2, 3, 4, 5] (Block 1)]
               = Some (?tlv, [Alloc_thing (Block 0), Clone_bytes [1, 2, 3, 4, 5] (Block 1)])"
    by (simp add: client_run_created set_value_long_ok)
  from get_length_by_form [OF tv] have a: "get_length ?tv = 4"
    by simp
  from get_length_by_form [OF tlv] have b: "get_length ?tlv = 9"
    by simp
  from tv tlv a b show ?thesis by blast
qed

subsection \<open>Values of at most two bytes\<close>

lemma created_attribute:
  assumes "transform_attribute_create this_ptr = (Some this, cs0)"
  shows "this = \<lparr>attribute_format = True, attribute_type = 0, attribute_length_or_value = 0,
                 attribute_value = \<lparr>ptr = NULL, len = 0\<rparr>\<rparr>"
  using assms by (simp add: transform_attribute_create_def split: if_splits)

text \<open>
  Claim C6. On a freshly created attribute, \<open>set_value\<close> with the two bytes
  \<open>0xAA, 0xBB\<close> succeeds and leaves the attribute in TV form; \<open>get_value\<close> then
  returns a view of two bytes on the inline field, whose bytes are exactly
  \<open>0xAA, 0xBB\<close> on a machine of either byte order, and \<open>get_length\<close> returns 4.
\<close>

theorem set_value_two_bytes_on_fresh:
  assumes "transform_attribute_create this_ptr = (Some this, cs0)"
    and "set_value e r this [0xAA, 0xBB] = (st, this', cs)"
  shows "st = SUCCESS \<and> attribute_format this' = True
         \<and> get_value this' = \<lparr>ptr = Inline_field, len = 2\<rparr>
         \<and> chunk_bytes e h this' (get_value this') = Some [0xAA, 0xBB]
         \<and> get_length this' = 4"
proof -
  have v: "length [0xAA, 0xBB :: byte] \<le> 2" by simp
  note this0 = created_attribute [OF assms(1)]
  from assms(2) have st: "st = SUCCESS"
    and this': "this' = this\<lparr>attribute_length_or_value :=
                   memcpy_u16 e (attribute_length_or_value this) [0xAA, 0xBB]
                     (length [0xAA, 0xBB :: byte])\<rparr>"
    by (simp_all add: set_value_short [OF v] this0)
  have fmt: "attribute_format this' = True"
    by (simp add: this' this0)
  have bytes: "u16_to_bytes e (attribute_length_or_value this') = [0xAA, 0xBB]"
    using u16_to_bytes_memcpy [OF v, of e "attribute_length_or_value this"]
    by (simp add: this' length_u16_to_bytes)
  have view: "get_value this' = \<lparr>ptr = Inline_field, len = 2\<rparr>"
    by (simp add: get_value_def fmt)
  show ?thesis
    by (simp add: st fmt view chunk_bytes_def bytes get_length_def)
qed

theorem set_value_two_bytes_on_fresh_witness:
  "transform_attribute_create (Block 0) =
     (Some \<lparr>attribute_format = True, attribute_type = 0, attribute_length_or_value = 0,
            attribute_value = \<lparr>ptr = NULL, len = 0\<rparr>\<rparr>, [Alloc_thing (Block 0)])
   \<and> set_value Big_endian NULL
        \<lparr>attribute_format = True, attribute_type = 0, attribute_length_or_value = 0,
         attribute_value = \<lparr>ptr = NULL, len = 0\<rparr>\<rparr> [0xAA, 0xBB] =
       (SUCCESS,
        \<lparr>attribute_format = True, attribute_type = 0, attribute_length_or_value = 0xAABB,
         attribute_value = \<lparr>ptr = NULL, len = 0\<rparr>\<rparr>, [])
   \<and> chunk_bytes Big_endian Map.empty
        \<lparr>attribute_format = True, attribute_type = 0, attribute_length_or_value = 0xAABB,
         attribute_value = \<lparr>ptr = NULL, len = 0\<rparr>\<rparr>
        (get_value
          \<lparr>attribute_format = True, attribute_type = 0, attribute_length_or_value = 0xAABB,
           attribute_value = \<lparr>ptr = NULL, len = 0\<rparr>\<rparr>) = Some [0xAA, 0xBB]
   \<and> get_length
        \<lparr>attribute_format = True, attribute_type = 0, attribute_length_or_value = 0xAABB,
         attribute_value = \<lparr>ptr = NULL, len = 0\<rparr>\<rparr> = 4"
proof -
  let ?fresh = "\<lparr>attribute_format = True, attribute_type = 0,
                  attribute_length_or_value = (0 :: u_int16_t),
                  attribute_value = \<lparr>ptr = NULL, len = 0\<rparr>\<rparr>"
  let ?set = "\<lparr>attribute_format = True, attribute_type = 0,
                attribute_length_or_value = (0xAABB :: u_int16_t),
                attribute_value = \<lparr>ptr = NULL, len = 0\<rparr>\<rparr>"
  have c: "transform_attribute_create (Block 0) = (Some ?fresh, [Alloc_thing (Block 0)])"
    by (simp add: transform_attribute_create_def)
  have s: "set_value Big_endian NULL ?fresh [0xAA, 0xBB] = (SUCCESS, ?set, [])"
    by (simp add: set_value_short memcpy_u16_def u16_to_bytes_def)
  from set_value_two_bytes_on_fresh [OF c s, of Map.empty]
  have r: "chunk_bytes Big_endian Map.empty ?set (get_value ?set) = Some [0xAA, 0xBB]
           \<and> get_length ?set = 4"
    by blast
  from c s r show ?thesis by blast
qed

text \<open>
  What holds of a value of at most two bytes. In every state, \<open>set_value\<close> overwrites
  the first bytes of the inline 16-bit field with the value and the remaining bytes of
  the field keep their contents. On an attribute whose format flag is \<open>True\<close>,
  \<open>set_value [a, b]\<close> followed by \<open>set_value [c]\<close> leaves \<open>get_value\<close> returning a
  two-byte view whose bytes are \<open>[c, b]\<close>.
\<close>

lemma set_value_short_partial_overwrite:
  assumes "length v \<le> 2"
  shows "u16_to_bytes e (attribute_length_or_value (fst (snd (set_value e r this v)))) =
           v @ drop (length v) (u16_to_bytes e (attribute_length_or_value this))
         \<and> (attribute_format this \<longrightarrow>
              get_value (fst (snd (set_value e r2 (fst (snd (set_value e r1 this [a, b]))) [c])))
                = \<lparr>ptr = Inline_field, len = 2\<rparr>
              \<and> chunk_bytes e h
                  (fst (snd (set_value e r2 (fst (snd (set_value e r1 this [a, b]))) [c])))
                  (get_value
                    (fst (snd (set_value e r2 (fst (snd (set_value e r1 this [a, b]))) [c]))))
                = Some [c, b])"
proof -
  have general: "u16_to_bytes e (attribute_length_or_value (fst (snd (set_value e r' this' v')))) =
           v' @ drop (length v') (u16_to_bytes e (attribute_length_or_value this'))"
    if "length v' \<le> 2" for r' this' v'
    using that by (simp add: set_value_short u16_to_bytes_memcpy)
  have keeps: "attribute_format (fst (snd (set_value e r' this' v'))) = attribute_format this'"
    if "length v' \<le> 2" for r' this' v'
    using that by (simp add: set_value_short)
  let ?this1 = "fst (snd (set_value e r1 this [a, b]))"
  let ?this2 = "fst (snd (set_value e r2 ?this1 [c]))"
  have b1: "u16_to_bytes e (attribute_length_or_value ?this1) = [a, b]"
    using general [of "[a, b]" r1 this] by (simp add: length_u16_to_bytes)
  have b2: "u16_to_bytes e (attribute_length_or_value ?this2) = [c, b]"
    using general [of "[c]" r2 ?this1] by (simp add: b1)
  have f2: "attribute_format ?this2 = attribute_format this"
    using keeps [of "[c]" r2 ?this1] keeps [of "[a, b]" r1 this] by simp
  have "attribute_format this \<Longrightarrow> get_value ?this2 = \<lparr>ptr = Inline_field, len = 2\<rparr>"
    by (simp add: get_value_def f2)
  moreover have "attribute_format this \<Longrightarrow>
      chunk_bytes e h ?this2 (get_value ?this2) = Some [c, b]"
    by (simp add: get_value_def f2 chunk_bytes_def b2)
  ultimately show ?thesis
    using general [OF assms, of r this] by blast
qed

lemma set_value_short_partial_overwrite_example:
  "length [0xCC :: byte] \<le> 2
   \<and> attribute_format
        \<lparr>attribute_format = True, attribute_type = 0, attribute_length_or_value = 0,
         attribute_value = \<lparr>ptr = NULL, len = 0\<rparr>\<rparr>
   \<and> u16_to_bytes Little_endian
        (attribute_length_or_value
          (fst (snd (set_value Little_endian NULL
            \<lparr>attribute_format = True, attribute_type = 0, attribute_length_or_value = 0xBBAA,
             attribute_value = \<lparr>ptr = NULL, len = 0\<rparr>\<rparr> [0xCC])))) = [0xCC, 0xBB]
   \<and> chunk_bytes Little_endian Map.empty
        (fst (snd (set_value Little_endian NULL
          (fst (snd (set_value Little_endian NULL
            \<lparr>attribute_format = True, attribute_type = 0, attribute_length_or_value = 0,
             attribute_value = \<lparr>ptr = NULL, len = 0\<rparr>\<rparr> [0xAA, 0xBB]))) [0xCC])))
        (get_value
          (fst (snd (set_value Little_endian NULL
            (fst (snd (set_value Little_endian NULL
              \<lparr>attribute_format = True, attribute_type = 0, attribute_length_or_value = 0,
               attribute_value = \<lparr>ptr = NULL, len = 0\<rparr>\<rparr> [0xAA, 0xBB]))) [0xCC]))))
       = Some [0xCC, 0xBB]"
proof -
  have v: "length [0xCC :: byte] \<le> 2" by simp
  let ?fresh = "\<lparr>attribute_format = True, attribute_type = 0,
                  attribute_length_or_value = (0 :: u_int16_t),
                  attribute_value = \<lparr>ptr = NULL, len = 0\<rparr>\<rparr>"
  let ?old = "\<lparr>attribute_format = True, attribute_type = 0,
                attribute_length_or_value = (0xBBAA :: u_int16_t),
                attribute_value = \<lparr>ptr = NULL, len = 0\<rparr>\<rparr>"
  have f: "attribute_format ?fresh" by simp
  let ?new = "fst (snd (set_value Little_endian NULL ?old [0xCC]))"
  let ?this2 = "fst (snd (set_value Little_endian NULL
                  (fst (snd (set_value Little_endian NULL ?fresh [0xAA, 0xBB]))) [0xCC]))"
  from set_value_short_partial_overwrite
         [OF v, of Little_endian NULL ?old NULL NULL 0 0 0 Map.empty]
  have "u16_to_bytes Little_endian (attribute_length_or_value ?new) =
          [0xCC] @ drop (length [0xCC :: byte])
                     (u16_to_bytes Little_endian (attribute_length_or_value ?old))"
    by blast
  then have p: "u16_to_bytes Little_endian (attribute_length_or_value ?new) = [0xCC, 0xBB]"
    by (simp add: u16_to_bytes_def)
  from f set_value_short_partial_overwrite
         [OF v, of Little_endian NULL ?fresh NULL NULL "0xAA" "0xBB" "0xCC" Map.empty]
  have q: "chunk_bytes Little_endian Map.empty ?this2 (get_value ?this2) = Some [0xCC, 0xBB]"
    by blast
  from v f p q show ?thesis by blast
qed

text \<open>
  Claim C10. The claim is that \<open>set_value\<close> with at most two bytes overwrites only the
  first bytes of the inline field, and that \<open>set_value [a, b]\<close> followed by
  \<open>set_value [c]\<close> on the same attribute leaves \<open>get_value\<close> returning a two-byte view
  with the bytes \<open>[c, b]\<close>. Evaluated on creation followed by \<open>set_value\<close> of three
  bytes (the clone succeeds), \<open>set_value [a, b]\<close> and \<open>set_value [c]\<close>: the inline field
  holds the bytes \<open>[c, b]\<close>, but the format flag is still \<open>False\<close> and \<open>get_value\<close>
  returns the released buffer's chunk, a null pointer with length 0, which denotes no
  bytes.
\<close>

theorem short_values_after_long_read_back_empty:
  "map_option (\<lambda>s. get_value (fst s))
     (client_run e (Block 0)
        [Set_value [1, 2, 3] (Block 1), Set_value [a, b] r1, Set_value [c] r2]) =
     Some \<lparr>ptr = NULL, len = 0\<rparr>
   \<and> map_option (\<lambda>s. chunk_bytes e h (fst s) (get_value (fst s)))
       (client_run e (Block 0)
          [Set_value [1, 2, 3] (Block 1), Set_value [a, b] r1, Set_value [c] r2]) =
       Some (Some [])
   \<and> map_option (\<lambda>s. u16_to_bytes e (attribute_length_or_value (fst s)))
       (client_run e (Block 0)
          [Set_value [1, 2, 3] (Block 1), Set_value [a, b] r1, Set_value [c] r2]) =
       Some [c, b]"
proof -
  have two: "length [a, b] \<le> 2" and one: "length [c] \<le> 2"
    by simp_all
  have bytes: "u16_to_bytes e (memcpy_u16 e (memcpy_u16 e w [a, b] (length [a, b])) [c]
                 (length [c])) = [c, b]" for w
    by (simp only: u16_to_bytes_memcpy [OF one] u16_to_bytes_memcpy [OF two])
       (simp add: length_u16_to_bytes)
  show ?thesis
    using bytes [of 3]
    by (simp add: client_run_created set_value_short set_value_long_ok get_value_def
          chunk_bytes_def)
qed

subsection \<open>The format flag and the out-of-line buffer\<close>

lemma foldl_api_step_invariant:
  assumes "P s" and "\<And>s c. P s \<Longrightarrow> P (api_step e s c)"
  shows "P (foldl (api_step e) s cs)"
  using assms(1) by (induction cs arbitrary: s) (simp_all add: assms(2))

lemma reached_TV_holds_no_buffer:
  assumes "client_run e this_ptr cs = Some (this, tr)" and "attribute_format this"
  shows "ptr (attribute_value this) = NULL \<and> len (attribute_value this) = 0"
proof -
  let ?P = "\<lambda>s :: private_transform_attribute_t \<times> allocator_call list.
              attribute_format (fst s) \<longrightarrow>
                ptr (attribute_value (fst s)) = NULL \<and> len (attribute_value (fst s)) = 0"
  have step: "?P (api_step e s c)" if "?P s" for s c
  proof (cases s)
    case (Pair a tr)
    show ?thesis
    proof (cases c)
      case (Set_value v r)
      consider "length v \<le> 2" | "2 < length v" "r = NULL" | "2 < length v" "r \<noteq> NULL"
        by linarith
      then show ?thesis
        using that
        by cases (auto simp: Pair Set_value set_value_short set_value_long_ok set_value_long_fail)
    next
      case (Set_attribute_type t)
      with that Pair show ?thesis by (simp add: set_attribute_type_def)
    qed
  qed
  from assms(1) obtain this0 tr0 where
    c: "transform_attribute_create this_ptr = (Some this0, tr0)"
    and f: "foldl (api_step e) (this0, tr0) cs = (this, tr)"
    by (auto simp: client_run_def split: prod.splits option.splits)
  have "?P (this0, tr0)"
    by (simp add: created_attribute [OF c])
  then have "?P (foldl (api_step e) (this0, tr0) cs)"
    using step by (rule foldl_api_step_invariant)
  with f assms(2) show ?thesis by simp
qed

text \<open>
  Claim C1. The claim is that \<open>set_value\<close> leaves the attribute in TV form exactly when
  the value has at most two bytes, whatever the form before. Evaluated on an attribute in
  TLV form (flag \<open>False\<close>, a three-byte buffer at block 1) and the one-byte value
  \<open>0xAA\<close>: the call succeeds, frees the buffer and copies the byte into the inline field,
  and the format flag is still \<open>False\<close>.
\<close>

theorem set_value_short_keeps_TLV_flag:
  "set_value e r
     \<lparr>attribute_format = False, attribute_type = 0, attribute_length_or_value = 3,
      attribute_value = \<lparr>ptr = Block 1, len = 3\<rparr>\<rparr> [0xAA] =
   (SUCCESS,
    \<lparr>attribute_format = False, attribute_type = 0,
     attribute_length_or_value = memcpy_u16 e 3 [0xAA] 1,
     attribute_value = \<lparr>ptr = NULL, len = 0\<rparr>\<rparr>,
    [Free (Block 1)])"
  by (simp add: set_value_short)

text \<open>
  Claim C2. The claim is that in every state reached from creation the format flag is
  \<open>True\<close> exactly when no out-of-line buffer is held. Evaluated on creation followed by
  \<open>set_value\<close> of three bytes (the clone succeeds) and \<open>set_value\<close> of one byte: the
  state reached has the flag \<open>False\<close>, a null buffer pointer and buffer length 0.
\<close>

theorem short_after_long_flag_without_buffer:
  "client_run e (Block 0) [Set_value [1, 2, 3] (Block 1), Set_value [0xAA] r] =
     Some (\<lparr>attribute_format = False, attribute_type = 0,
            attribute_length_or_value = memcpy_u16 e 3 [0xAA] 1,
            attribute_value = \<lparr>ptr = NULL, len = 0\<rparr>\<rparr>,
           [Alloc_thing (Block 0), Clone_bytes [1, 2, 3] (Block 1), Free (Block 1)])"
  by (simp add: client_run_created set_value_short set_value_long_ok)

subsection \<open>Failure of the clone\<close>

text \<open>
  Claim C3 as stated (after a failed clone the attribute is in TV form with value 0 and
  holds no buffer) is false at two states: an attribute in TV form with the inline value
  \<open>0xBBAA\<close> keeps that value, and an attribute in TLV form keeps the flag \<open>False\<close>
  and the length 3.
\<close>

theorem set_value_clone_failure_counterexample:
  "\<not> (fst (set_value Little_endian NULL
              \<lparr>attribute_format = True, attribute_type = 0,
               attribute_length_or_value = 0xBBAA,
               attribute_value = \<lparr>ptr = NULL, len = 0\<rparr>\<rparr> [1, 2, 3]) = OUT_OF_RES
       \<and> attribute_format (fst (snd (set_value Little_endian NULL
              \<lparr>attribute_format = True, attribute_type = 0,
               attribute_length_or_value = 0xBBAA,
               attribute_value = \<lparr>ptr = NULL, len = 0\<rparr>\<rparr> [1, 2, 3]))) = True
       \<and> attribute_length_or_value (fst (snd (set_value Little_endian NULL
              \<lparr>attribute_format = True, attribute_type = 0,
               attribute_length_or_value = 0xBBAA,
               attribute_value = \<lparr>ptr = NULL, len = 0\<rparr>\<rparr> [1, 2, 3]))) = 0
       \<and> ptr (attribute_value (fst (snd (set_value Little_endian NULL
              \<lparr>attribute_format = True, attribute_type = 0,
               attribute_length_or_value = 0xBBAA,
               attribute_value = \<lparr>ptr = NULL, len = 0\<rparr>\<rparr> [1, 2, 3])))) = NULL)
   \<and> \<not> (fst (set_value Little_endian NULL
              \<lparr>attribute_format = False, attribute_type = 0,
               attribute_length_or_value = 3,
               attribute_value = \<lparr>ptr = Block 1, len = 3\<rparr>\<rparr> [4, 5, 6]) = OUT_OF_RES
       \<and> attribute_format (fst (snd (set_value Little_endian NULL
              \<lparr>attribute_format = False, attribute_type = 0,
               attribute_length_or_value = 3,
               attribute_value = \<lparr>ptr = Block 1, len = 3\<rparr>\<rparr> [4, 5, 6]))) = True
       \<and> attribute_length_or_value (fst (snd (set_value Little_endian NULL
              \<lparr>attribute_format = False, attribute_type = 0,
               attribute_length_or_value = 3,
               attribute_value = \<lparr>ptr = Block 1, len = 3\<rparr>\<rparr> [4, 5, 6]))) = 0
       \<and> ptr (attribute_value (fst (snd (set_value Little_endian NULL
              \<lparr>attribute_format = False, attribute_type = 0,
               attribute_length_or_value = 3,
               attribute_value = \<lparr>ptr = Block 1, len = 3\<rparr>\<rparr> [4, 5, 6])))) = NULL)"
  by (simp add: set_value_long_fail)

text \<open>
  Claim C3, amended. For every attribute state, if \<open>set_value\<close> is called with more than
  two bytes and the clone fails, the call returns \<open>OUT_OF_RES\<close>; a buffer held before
  is freed and none is held afterwards (the pointer is null; the length is 0 whenever the
  state before had length 0 with a null pointer); and an attribute that was in TV form
  before is still in TV form with \<open>attribute_length_or_value\<close> unchanged, so its value
  is 0 only if it was 0 before.
\<close>

theorem set_value_clone_failure:
  assumes "2 < length v"
  shows "fst (set_value e NULL this v) = OUT_OF_RES
         \<and> snd (snd (set_value e NULL this v)) =
             (if ptr (attribute_value this) \<noteq> NULL then [Free (ptr (attribute_value this))]
              else []) @ [Clone_bytes v NULL]
         \<and> ptr (attribute_value (fst (snd (set_value e NULL this v)))) = NULL
         \<and> ((ptr (attribute_value this) = NULL \<longrightarrow> len (attribute_value this) = 0) \<longrightarrow>
              len (attribute_value (fst (snd (set_value e NULL this v)))) = 0)
         \<and> (attribute_format this \<longrightarrow>
              attribute_format (fst (snd (set_value e NULL this v)))
              \<and> attribute_length_or_value (fst (snd (set_value e NULL this v))) =
                  attribute_length_or_value this)"
  by (simp add: set_value_long_fail [OF assms])

theorem set_value_clone_failure_witness:
  "2 < length [1, 2, 3 :: byte]
   \<and> attribute_format
        \<lparr>attribute_format = True, attribute_type = 7, attribute_length_or_value = 0xBBAA,
         attribute_value = \<lparr>ptr = NULL, len = 0\<rparr>\<rparr>
   \<and> fst (set_value Big_endian NULL
        \<lparr>attribute_format = True, attribute_type = 7, attribute_length_or_value = 0xBBAA,
         attribute_value = \<lparr>ptr = NULL, len = 0\<rparr>\<rparr> [1, 2, 3]) = OUT_OF_RES
   \<and> snd (snd (set_value Big_endian NULL
        \<lparr>attribute_format = True, attribute_type = 7, attribute_length_or_value = 0xBBAA,
         attribute_value = \<lparr>ptr = NULL, len = 0\<rparr>\<rparr> [1, 2, 3])) =
       [Clone_bytes [1, 2, 3] NULL]
   \<and> attribute_value (fst (snd (set_value Big_endian NULL
        \<lparr>attribute_format = True, attribute_type = 7, attribute_length_or_value = 0xBBAA,
         attribute_value = \<lparr>ptr = NULL, len = 0\<rparr>\<rparr> [1, 2, 3]))) =
       \<lparr>ptr = NULL, len = 0\<rparr>
   \<and> attribute_format (fst (snd (set_value Big_endian NULL
        \<lparr>attribute_format = True, attribute_type = 7, attribute_length_or_value = 0xBBAA,
         attribute_value = \<lparr>ptr = NULL, len = 0\<rparr>\<rparr> [1, 2, 3])))
   \<and> attribute_length_or_value (fst (snd (set_value Big_endian NULL
        \<lparr>attribute_format = True, attribute_type = 7, attribute_length_or_value = 0xBBAA,
         attribute_value = \<lparr>ptr = NULL, len = 0\<rparr>\<rparr> [1, 2, 3]))) = 0xBBAA"
proof -
  have v: "2 < length [1, 2, 3 :: byte]" by simp
  let ?tv = "\<lparr>attribute_format = True, attribute_type = (7 :: u_int16_t),
               attribute_length_or_value = (0xBBAA :: u_int16_t),
               attribute_value = \<lparr>ptr = NULL, len = 0\<rparr>\<rparr>"
  let ?res = "set_value Big_endian NULL ?tv [1, 2, 3]"
  have tv: "attribute_format ?tv"
    and nb: "ptr (attribute_value ?tv) = NULL \<longrightarrow> len (attribute_value ?tv) = 0"
    by simp_all
  from set_value_clone_failure [OF v, of Big_endian ?tv] tv nb
  have "fst ?res = OUT_OF_RES"
    and "snd (snd ?res) = [Clone_bytes [1, 2, 3] NULL]"
    and "ptr (attribute_value (fst (snd ?res))) = NULL"
    and "len (attribute_value (fst (snd ?res))) = 0"
    and "attribute_format (fst (snd ?res))"
    and "attribute_length_or_value (fst (snd ?res)) = 0xBBAA"
    by simp_all
  with v tv show ?thesis
    by (simp add: chunk_t.equality)
qed

subsection \<open>Releasing the buffer\<close>

lemma allocator_run_append:
  "allocator_run h (xs @ ys) =
     (case allocator_run h xs of Inl f \<Rightarrow> Inl f | Inr h' \<Rightarrow> allocator_run h' ys)"
  by (induction xs arbitrary: h) (simp_all split: sum.splits)

lemma owns_attribute_type:
  "owns h this_ptr (this\<lparr>attribute_type := t\<rparr>) = owns h this_ptr this"
  by (simp add: owns_def split: pointer.splits)

lemma set_value_keeps_ownership:
  assumes "owns h this_ptr this"
  shows "sound h this_ptr (fst (snd (set_value e r this v)), snd (snd (set_value e r this v)))"
proof -
  consider "length v \<le> 2" | "2 < length v" "r = NULL" | "2 < length v" "r \<noteq> NULL"
    by linarith
  then show ?thesis
  proof cases
    case 1
    with assms show ?thesis
      by (auto simp: sound_def owns_def set_value_short split: pointer.splits)
  next
    case 2
    with assms show ?thesis
      by (auto simp: sound_def owns_def set_value_long_fail allocate_def split: pointer.splits)
  next
    case 3
    with assms show ?thesis
      by (auto simp: sound_def owns_def set_value_long_ok allocate_def
               split: pointer.splits option.splits)
  qed
qed

lemma api_step_sound:
  assumes "sound h0 this_ptr s"
  shows "sound h0 this_ptr (api_step e s c)"
proof (cases s)
  case (Pair this tr)
  show ?thesis
  proof (cases c)
    case (Set_attribute_type t)
    with assms Pair show ?thesis
      by (auto simp: sound_def owns_attribute_type set_attribute_type_def
               split: sum.splits fault.splits)
  next
    case (Set_value v r)
    obtain st this' cs where sv: "set_value e r this v = (st, this', cs)"
      by (cases "set_value e r this v")
    show ?thesis
    proof (cases "allocator_run h0 tr")
      case (Inl f)
      with assms Pair Set_value sv show ?thesis
        by (auto simp: sound_def allocator_run_append split: sum.splits fault.splits)
    next
      case (Inr h)
      with assms Pair have "owns h this_ptr this"
        by (simp add: sound_def)
      from set_value_keeps_ownership [OF this, of e r v] sv Inr Pair Set_value
      show ?thesis
        by (auto simp: sound_def allocator_run_append split: sum.splits fault.splits)
    qed
  qed
qed

lemma created_sound:
  assumes "transform_attribute_create this_ptr = (Some this, tr)"
  shows "sound h0 this_ptr (this, tr)"
  using assms
  by (auto simp: transform_attribute_create_def sound_def owns_def allocate_def
           split: if_splits pointer.splits option.splits)

lemma destroy_after_sound:
  assumes "sound h0 this_ptr (this, tr)"
  shows "allocator_run h0 (tr @ snd (destroy this_ptr this)) \<noteq> Inl (Invalid_free q)"
proof (cases "allocator_run h0 tr")
  case (Inl f)
  with assms show ?thesis
    by (cases f) (simp_all add: sound_def allocator_run_append)
next
  case (Inr h)
  with assms have "owns h this_ptr this"
    by (simp add: sound_def)
  then have "\<exists>h'. allocator_run h (snd (destroy this_ptr this)) = Inr h'"
    by (auto simp: owns_def destroy_def split: pointer.splits)
  with Inr show ?thesis
    by (auto simp: allocator_run_append)
qed

lemma lifecycle_never_frees_twice:
  "allocator_run h (lifecycle e this_ptr cs) \<noteq> Inl (Invalid_free q)"
proof (cases "this_ptr = NULL")
  case True
  then show ?thesis
    by (simp add: lifecycle_def client_run_def transform_attribute_create_def allocate_def)
next
  case False
  then obtain this0 tr0 where c: "transform_attribute_create this_ptr = (Some this0, tr0)"
    by (simp add: transform_attribute_create_def)
  obtain this tr where f: "foldl (api_step e) (this0, tr0) cs = (this, tr)"
    by (cases "foldl (api_step e) (this0, tr0) cs")
  have "sound h this_ptr (foldl (api_step e) (this0, tr0) cs)"
    using created_sound [OF c] api_step_sound by (rule foldl_api_step_invariant)
  then have "sound h this_ptr (this, tr)"
    by (simp add: f)
  then have "allocator_run h (tr @ snd (destroy this_ptr this)) \<noteq> Inl (Invalid_free q)"
    by (rule destroy_after_sound)
  then show ?thesis
    by (simp add: lifecycle_def client_run_def c f)
qed

text \<open>
  Claim C7. \<open>destroy\<close> frees the out-of-line buffer exactly when one is held (a non-null
  pointer), and then the attribute itself. After a \<open>set_value\<close> that released the
  buffer and stored none (a value of at most two bytes, or a failed clone), \<open>destroy\<close>
  frees only the attribute. Over the whole life of an attribute (creation, any calls of
  \<open>set_value\<close> and \<open>set_attribute_type\<close> with any results of the allocator, destruction)
  and from any heap, no call frees a block that is not live: nothing is freed twice.
\<close>

theorem destroy_frees_buffer_iff_held:
  "(ptr (attribute_value this) \<noteq> NULL \<longrightarrow>
      snd (destroy this_ptr this) = [Free (ptr (attribute_value this)), Free this_ptr])
   \<and> (ptr (attribute_value this) = NULL \<longrightarrow> snd (destroy this_ptr this) = [Free this_ptr])
   \<and> (length v \<le> 2 \<or> r = NULL \<longrightarrow>
        snd (destroy this_ptr (fst (snd (set_value e r this v)))) = [Free this_ptr])
   \<and> allocator_run h (lifecycle e this_ptr cs) \<noteq> Inl (Invalid_free q)"
proof -
  have "ptr (attribute_value (fst (snd (set_value e r this v)))) = NULL"
    if "length v \<le> 2 \<or> r = NULL"
  proof (cases "length v \<le> 2")
    case True
    then show ?thesis by (simp add: set_value_short)
  next
    case False
    with that have "2 < length v" and "r = NULL" by simp_all
    then show ?thesis by (simp add: set_value_long_fail)
  qed
  then have "length v \<le> 2 \<or> r = NULL \<longrightarrow>
        snd (destroy this_ptr (fst (snd (set_value e r this v)))) = [Free this_ptr]"
    by (simp add: destroy_def)
  moreover have "allocator_run h (lifecycle e this_ptr cs) \<noteq> Inl (Invalid_free q)"
    by (rule lifecycle_never_frees_twice)
  ultimately show ?thesis
    by (simp add: destroy_def)
qed

theorem destroy_frees_buffer_iff_held_witness:
  "ptr (attribute_value
         \<lparr>attribute_format = False, attribute_type = 0, attribute_length_or_value = 3,
          attribute_value = \<lparr>ptr = Block 1, len = 3\<rparr>\<rparr>) \<noteq> NULL
   \<and> snd (destroy (Block 0)
             \<lparr>attribute_format = False, attribute_type = 0, attribute_length_or_value = 3,
              attribute_value = \<lparr>ptr = Block 1, len = 3\<rparr>\<rparr>) =
       [Free (Block 1), Free (Block 0)]
   \<and> ptr (attribute_value
             \<lparr>attribute_format = True, attribute_type = 0, attribute_length_or_value = 0,
              attribute_value = \<lparr>ptr = NULL, len = 0\<rparr>\<rparr>) = NULL
   \<and> snd (destroy (Block 0)
             \<lparr>attribute_format = True, attribute_type = 0, attribute_length_or_value = 0,
              attribute_value = \<lparr>ptr = NULL, len = 0\<rparr>\<rparr>) = [Free (Block 0)]
   \<and> length [0xAA :: byte] \<le> 2
   \<and> snd (destroy (Block 0)
             (fst (snd (set_value Little_endian NULL
                \<lparr>attribute_format = False, attribute_type = 0,
                 attribute_length_or_value = 3,
                 attribute_value = \<lparr>ptr = Block 1, len = 3\<rparr>\<rparr> [0xAA])))) =
       [Free (Block 0)]
   \<and> allocator_run Map.empty
         (lifecycle Little_endian (Block 0)
            [Set_value [1, 2, 3] (Block 1), Set_value [0xAA] NULL]) \<noteq>
       Inl (Invalid_free (Block 1))
   \<and> allocator_run Map.empty
         (lifecycle Little_endian (Block 0)
            [Set_value [1, 2, 3] (Block 1), Set_value [0xAA] NULL]) = Inr Map.empty"
proof -
  let ?tlv = "\<lparr>attribute_format = False, attribute_type = 0,
                attribute_length_or_value = (3 :: u_int16_t),
                attribute_value = \<lparr>ptr = Block 1, len = 3\<rparr>\<rparr>"
  let ?fresh = "\<lparr>attribute_format = True, attribute_type = 0,
                  attribute_length_or_value = (0 :: u_int16_t),
                  attribute_value = \<lparr>ptr = NULL, len = 0\<rparr>\<rparr>"
  let ?cs = "[Set_value [1, 2, 3] (Block 1), Set_value [0xAA] NULL]"
  have held: "ptr (attribute_value ?tlv) \<noteq> NULL"
    and none: "ptr (attribute_value ?fresh) = NULL"
    and short: "length [0xAA :: byte] \<le> 2"
    by simp_all
  from held short
    destroy_frees_buffer_iff_held
      [of ?tlv "Block 0" "[0xAA]" NULL Little_endian Map.empty ?cs "Block 1"]
  have a: "snd (destroy (Block 0) ?tlv) = [Free (ptr (attribute_value ?tlv)), Free (Block 0)]"
    and b: "snd (destroy (Block 0)
                  (fst (snd (set_value Little_endian NULL ?tlv [0xAA])))) = [Free (Block 0)]"
    and c: "allocator_run Map.empty (lifecycle Little_endian (Block 0) ?cs) \<noteq>
              Inl (Invalid_free (Block 1))"
    by blast+
  from none
    destroy_frees_buffer_iff_held
      [of ?fresh "Block 0" "[0xAA]" NULL Little_endian Map.empty ?cs "Block 1"]
  have d: "snd (destroy (Block 0) ?fresh) = [Free (Block 0)]"
    by blast
  have e: "allocator_run Map.empty (lifecycle Little_endian (Block 0) ?cs) = Inr Map.empty"
    by (simp add: lifecycle_def client_run_created set_value_short set_value_long_ok
          destroy_def allocate_def)
  from a have a': "snd (destroy (Block 0) ?tlv) = [Free (Block 1), Free (Block 0)]"
    by simp
  from held none short a' b c d e show ?thesis by blast
qed

end
